theory Spec2Isabelle
  imports Main
begin

section \<open>Strings of the host language\<close>

text \<open>
  The program is a React component written in TypeScript (app/page.tsx). A JavaScript
  string is a sequence of UTF-16 code units: \<open>length\<close>, indexing and \<open>slice\<close> count code
  units. A code unit is a natural number here, so that the non-ASCII literals of the source
  (the status emoji) and the results of upper-casing have a value.
\<close>

type_synonym jsstring = "nat list"

definition ascii :: "string \<Rightarrow> jsstring" where
  "ascii cs = map of_char cs"

text \<open>
  \<open>String.prototype.trim\<close> removes the white space and line terminators of ECMAScript
  from both ends.
\<close>

definition isWhiteSpace :: "nat \<Rightarrow> bool" where
  "isWhiteSpace c \<longleftrightarrow>
     c \<in> {9, 10, 11, 12, 13, 32, 160, 5760, 8232, 8233, 8239, 8287, 12288, 65279}
     \<or> (8192 \<le> c \<and> c \<le> 8202)"

definition trim :: "jsstring \<Rightarrow> jsstring" where
  "trim s = rev (dropWhile isWhiteSpace (rev (dropWhile isWhiteSpace s)))"

text \<open>A number inside a template literal is printed in decimal.\<close>

fun digits :: "nat \<Rightarrow> jsstring" where
  "digits n = (if n < 10 then [48 + n] else digits (n div 10) @ [48 + n mod 10])"

text \<open>
  Two things are supplied by the browser and not by the repository: the Unicode case
  mapping behind \<open>toUpperCase\<close>, and the outcome of \<open>new WebSocket(url)\<close>, which either
  yields a socket or throws (the message of the exception is kept, the catch block
  prints it). Both are fields of the host; every general theorem below holds for any host.
\<close>

record host =
  toUpperCase :: "jsstring \<Rightarrow> jsstring"
  newWebSocketThrows :: "jsstring \<Rightarrow> jsstring option"

text \<open>
  The host of the worked examples. \<open>upperUnit\<close> is the upper-casing of one code unit
  for the Basic Latin and Latin-1 Supplement blocks: the letters move to their capitals,
  U+00B5 goes to U+039C, U+00FF to U+0178, and U+00DF (sharp s) becomes the two letters
  SS. Code units above U+00FF are left alone by this host. Its socket constructor accepts
  a URL that starts with \<open>ws://\<close> or \<open>wss://\<close>.
\<close>

definition upperUnit :: "nat \<Rightarrow> jsstring" where
  "upperUnit c =
     (if 97 \<le> c \<and> c \<le> 122 then [c - 32]
      else if c = 181 then [924]
      else if c = 223 then [83, 83]
      else if 224 \<le> c \<and> c \<le> 254 \<and> c \<noteq> 247 then [c - 32]
      else if c = 255 then [376]
      else [c])"

definition demoHost :: host where
  "demoHost =
     \<lparr> toUpperCase = (\<lambda>s. concat (map upperUnit s)),
       newWebSocketThrows = (\<lambda>url.
         if take 5 url = ascii ''ws://'' \<or> take 6 url = ascii ''wss://'' then None
         else Some (ascii ''The URL is invalid.'')) \<rparr>"

section \<open>The mock server's transform\<close>

definition emptyMessageReceived :: jsstring where
  "emptyMessageReceived = ascii ''Empty message received''"

text \<open>
  \<open>mockServerResponse\<close> (page.tsx, lines 58 to 67). \<open>!message\<close> holds of the empty
  string only; \<open>message[0]\<close> is the one-unit string at index 0, read after the empty case
  has returned; \<open>message.slice(1)\<close> drops one code unit.
\<close>

definition mockServerResponse :: "host \<Rightarrow> jsstring \<Rightarrow> jsstring" where
  "mockServerResponse h message =
     (if message = [] then emptyMessageReceived
      else if length message = 1 then toUpperCase h message
      else toUpperCase h [message ! 0] @ drop 1 message)"

text \<open>
  The reference definition, written from the words of the specification (section 4.2):
  empty input gives the fixed string; an input of exactly one character gives that
  character upper-cased; any other input gives the upper-cased first character followed
  by the remaining characters unchanged.
\<close>

fun transform_spec :: "host \<Rightarrow> jsstring \<Rightarrow> jsstring" where
  "transform_spec h [] = emptyMessageReceived"
| "transform_spec h [c] = toUpperCase h [c]"
| "transform_spec h (c # rest) = toUpperCase h [c] @ rest"

section \<open>The component's state\<close>

text \<open>
  An entry of the message log (interface \<open>Message\<close>). Its \<open>id\<close> and \<open>timestamp\<close> are
  read from the clock and the random number generator; the model keeps the two fields
  that the program decides, the type and the content.
\<close>

datatype msgtype = Sent | Received | System

record Message =
  mtype :: msgtype
  content :: jsstring

text \<open>
  The values of one render. A callback made by \<open>useCallback\<close> is a closure over the
  \<open>useState\<close> values of the render that created it: inside the callback \<open>retryCount\<close>,
  \<open>isConnecting\<close>, \<open>useMockServer\<close>, \<open>serverUrl\<close>, \<open>message\<close> and \<open>isConnected\<close> are
  constants, however the state changes later. Setters and the two refs (\<open>wsRef\<close>,
  \<open>retryTimeoutRef\<close>) act on the current state. Each callback therefore takes the
  render it closes over and the current state.
\<close>

record render =
  r_message :: jsstring
  r_isConnected :: bool
  r_serverUrl :: jsstring
  r_isConnecting :: bool
  r_useMockServer :: bool
  r_retryCount :: nat

text \<open>
  A WebSocket object: its \<open>readyState\<close>, the render of the \<open>connectToServer\<close> call that
  created it and attached its handlers, the data handed to \<open>send\<close>, and the arguments
  of the \<open>close\<close> call that started its closing.
\<close>

datatype readyState = CONNECTING | OPEN | CLOSING | CLOSED

datatype closeCall = NotCalled | Plain | WithCode nat jsstring

record webSocket =
  readyState :: readyState
  url :: jsstring
  createdIn :: render
  sentData :: "jsstring list"
  closeCall :: closeCall

text \<open>
  What a pending timer does when it fires: the retry scheduled by \<open>ws.onclose\<close> calls the
  \<open>connectToServer\<close> of the render that scheduled it; the connect timeout looks at its
  own socket; the mock reply appends the response computed when the message was sent.
  (The timer of \<open>copyMessage\<close> belongs to the clipboard affordance and is left out.)
\<close>

datatype timerAction = RetryConnect render | ConnectTimeout nat | MockReply jsstring

text \<open>
  The state of the component: the \<open>useState\<close> cells, the two refs, the sockets created
  so far (a socket is named by its index) and the pending timers, each with its handle,
  its delay in milliseconds and its action. \<open>maxRetries\<close> is a state cell without a
  setter, so it is a constant.
\<close>

record state =
  message :: jsstring
  messages :: "Message list"
  isConnected :: bool
  connectionStatus :: jsstring
  serverUrl :: jsstring
  isConnecting :: bool
  error :: "jsstring option"
  useMockServer :: bool
  retryCount :: nat
  wsRef :: "nat option"
  retryTimeoutRef :: "nat option"
  sockets :: "webSocket list"
  timers :: "(nat \<times> nat \<times> timerAction) list"
  timerSeq :: nat

definition maxRetries :: nat where
  "maxRetries = 3"

definition render_of :: "state \<Rightarrow> render" where
  "render_of s =
     \<lparr> r_message = message s, r_isConnected = isConnected s, r_serverUrl = serverUrl s,
       r_isConnecting = isConnecting s, r_useMockServer = useMockServer s,
       r_retryCount = retryCount s \<rparr>"

text \<open>The texts of the source. The emoji are written as their UTF-16 code units.\<close>

definition statusDisconnected :: jsstring where
  "statusDisconnected = ascii ''Disconnected''"

definition statusConnectedMock :: jsstring where
  "statusConnectedMock = ascii ''Connected (Mock Server)''"

definition statusConnected :: jsstring where
  "statusConnected = ascii ''Connected''"

definition statusConnectionLost :: jsstring where
  "statusConnectionLost = ascii ''Connection Lost''"

definition statusConnectionError :: jsstring where
  "statusConnectionError = ascii ''Connection Error''"

definition statusConnectionFailed :: jsstring where
  "statusConnectionFailed = ascii ''Connection Failed''"

definition connectedToMockText :: jsstring where
  "connectedToMockText =
     [55357, 57314] @ ascii '' Connected to Mock Server (Python server not required)''"

definition connectedText :: jsstring where
  "connectedText = [55357, 57314] @ ascii '' Connected to Python WebSocket server''"

definition connectionClosedText :: jsstring where
  "connectionClosedText = [55357, 56628] @ ascii '' Connection closed''"

definition connectionLostText :: jsstring where
  "connectionLostText = [9888, 65039] @ ascii '' Connection lost unexpectedly''"

definition retryingText :: "nat \<Rightarrow> jsstring" where
  "retryingText nextRetry =
     ascii ''Connection lost. Retrying... ('' @ digits nextRetry @ ascii ''/''
       @ digits maxRetries @ ascii '')''"

definition failedAfterRetriesText :: jsstring where
  "failedAfterRetriesText =
     ascii ''Failed to connect after multiple attempts. Try using Mock Server or check if Python server is running.''"

definition failedToConnectText :: "jsstring \<Rightarrow> jsstring" where
  "failedToConnectText u =
     ascii ''Failed to connect to Python server. Make sure the server is running on '' @ u"

definition connectionTimeoutText :: jsstring where
  "connectionTimeoutText = ascii ''Connection timeout. Server may not be running.''"

definition failedToEstablishText :: jsstring where
  "failedToEstablishText = ascii ''Failed to establish connection''"

definition notConnectedText :: jsstring where
  "notConnectedText = ascii ''Not connected to server. Please connect first.''"

definition disconnectedFromMockText :: jsstring where
  "disconnectedFromMockText = [55357, 56628] @ ascii '' Disconnected from Mock Server''"

definition userClosedText :: jsstring where
  "userClosedText = ascii ''User closed connection''"

text \<open>The state of the first render. Timer handles of a browser are positive.\<close>

definition init :: state where
  "init =
     \<lparr> message = [], messages = [], isConnected = False,
       connectionStatus = statusDisconnected, serverUrl = ascii ''ws://localhost:8765'',
       isConnecting = False, error = None, useMockServer = False, retryCount = 0,
       wsRef = None, retryTimeoutRef = None, sockets = [], timers = [], timerSeq = 1 \<rparr>"

section \<open>Timers and sockets\<close>

definition addMessage :: "msgtype \<Rightarrow> jsstring \<Rightarrow> state \<Rightarrow> state" where
  "addMessage t c s = s\<lparr>messages := messages s @ [\<lparr>mtype = t, content = c\<rparr>]\<rparr>"

definition setTimeout :: "nat \<Rightarrow> timerAction \<Rightarrow> state \<Rightarrow> nat \<times> state" where
  "setTimeout ms a s =
     (timerSeq s,
      s\<lparr>timers := timers s @ [(timerSeq s, ms, a)], timerSeq := Suc (timerSeq s)\<rparr>)"

definition clearTimeout :: "nat \<Rightarrow> state \<Rightarrow> state" where
  "clearTimeout t s = s\<lparr>timers := filter (\<lambda>x. fst x \<noteq> t) (timers s)\<rparr>"

text \<open>
  The block that opens \<open>connectToServer\<close> and \<open>closeConnection\<close>:
  \<^verbatim>\<open>if (retryTimeoutRef.current) { clearTimeout(retryTimeoutRef.current); retryTimeoutRef.current = null }\<close>
\<close>

definition clearRetryTimeout :: "state \<Rightarrow> state" where
  "clearRetryTimeout s =
     (case retryTimeoutRef s of
        None \<Rightarrow> s
      | Some t \<Rightarrow> (clearTimeout t s)\<lparr>retryTimeoutRef := None\<rparr>)"

text \<open>
  \<open>ws.close(...)\<close> starts the closing of a socket that is connecting or open and does
  nothing to one that is closing or closed. \<open>ws.send(data)\<close> is only called on an open
  socket.
\<close>

definition wsClose :: "nat \<Rightarrow> closeCall \<Rightarrow> state \<Rightarrow> state" where
  "wsClose i args s =
     (if i < length (sockets s) \<and>
         (readyState (sockets s ! i) = CONNECTING \<or> readyState (sockets s ! i) = OPEN)
      then s\<lparr>sockets := (sockets s)[i := (sockets s ! i)\<lparr>readyState := CLOSING, closeCall := args\<rparr>]\<rparr>
      else s)"

definition wsSend :: "nat \<Rightarrow> jsstring \<Rightarrow> state \<Rightarrow> state" where
  "wsSend i d s =
     (if i < length (sockets s)
      then s\<lparr>sockets := (sockets s)[i := (sockets s ! i)\<lparr>sentData := sentData (sockets s ! i) @ [d]\<rparr>]\<rparr>
      else s)"

definition transportOpen :: "state \<Rightarrow> bool" where
  "transportOpen s =
     (case wsRef s of
        None \<Rightarrow> False
      | Some i \<Rightarrow> i < length (sockets s) \<and> readyState (sockets s ! i) = OPEN)"

section \<open>The callbacks\<close>

text \<open>
  \<open>connectToServer\<close> (lines 69 to 172). The function is declared \<open>async\<close> but awaits
  nothing, so it runs to its end when called. The catch block runs when the socket
  constructor throws.
\<close>

definition connectToServer :: "host \<Rightarrow> render \<Rightarrow> state \<Rightarrow> state" where
  "connectToServer h r s =
     (if r_isConnecting r then s
      else
        let s1 = clearRetryTimeout (s\<lparr>isConnecting := True, error := None\<rparr>);
            s2 = (case wsRef s1 of
                    None \<Rightarrow> s1
                  | Some i \<Rightarrow> (wsClose i Plain s1)\<lparr>wsRef := None\<rparr>)
        in if r_useMockServer r then
             addMessage System connectedToMockText
               (s2\<lparr>isConnected := True, connectionStatus := statusConnectedMock,
                    isConnecting := False, error := None, retryCount := 0\<rparr>)
           else
             (case newWebSocketThrows h (r_serverUrl r) of
                Some m \<Rightarrow>
                  addMessage System ([10060, 32] @ failedToEstablishText)
                    (s2\<lparr>connectionStatus := statusConnectionFailed, isConnecting := False,
                         error := Some (failedToEstablishText @ ascii '': '' @ m)\<rparr>)
              | None \<Rightarrow>
                  let i = length (sockets s2);
                      ws = \<lparr>readyState = CONNECTING, url = r_serverUrl r, createdIn = r,
                             sentData = [], closeCall = NotCalled\<rparr>;
                      s3 = s2\<lparr>sockets := sockets s2 @ [ws], wsRef := Some i\<rparr>
                  in snd (setTimeout 5000 (ConnectTimeout i) s3)))"

text \<open>\<open>ws.onopen\<close> (lines 104 to 111).\<close>

definition ws_onopen :: "state \<Rightarrow> state" where
  "ws_onopen s =
     addMessage System connectedText
       (s\<lparr>isConnected := True, connectionStatus := statusConnected, isConnecting := False,
           error := None, retryCount := 0\<rparr>)"

text \<open>\<open>ws.onmessage\<close> (lines 113 to 116).\<close>

definition ws_onmessage :: "jsstring \<Rightarrow> state \<Rightarrow> state" where
  "ws_onmessage d s = addMessage Received d s"

text \<open>
  \<open>ws.onclose\<close> (lines 118 to 145). The handler is created inside a call of
  \<open>connectToServer\<close>, so its \<open>retryCount\<close> is the value of the render \<open>r\<close> that this
  \<open>connectToServer\<close> closes over, and the \<open>connectToServer\<close> that the timer calls is the
  one of that same render: a later render makes a new callback for the buttons, and the
  timer does not see it.
\<close>

definition ws_onclose :: "render \<Rightarrow> bool \<Rightarrow> state \<Rightarrow> state" where
  "ws_onclose r wasClean s =
     (let s1 = s\<lparr>isConnected := False, isConnecting := False, wsRef := None\<rparr>
      in if wasClean then
           addMessage System connectionClosedText (s1\<lparr>connectionStatus := statusDisconnected\<rparr>)
         else
           let s2 = addMessage System connectionLostText
                      (s1\<lparr>connectionStatus := statusConnectionLost\<rparr>)
           in if r_retryCount r < maxRetries then
                let nextRetry = r_retryCount r + 1;
                    s3 = s2\<lparr>retryCount := nextRetry, error := Some (retryingText nextRetry)\<rparr>;
                    (t, s4) = setTimeout (2000 * nextRetry) (RetryConnect r) s3
                in s4\<lparr>retryTimeoutRef := Some t\<rparr>
              else s2\<lparr>error := Some failedAfterRetriesText\<rparr>)"

text \<open>\<open>ws.onerror\<close> (lines 147 to 155).\<close>

definition ws_onerror :: "render \<Rightarrow> state \<Rightarrow> state" where
  "ws_onerror r s =
     addMessage System ([10060, 32] @ failedToConnectText (r_serverUrl r))
       (s\<lparr>connectionStatus := statusConnectionError, isConnecting := False,
           error := Some (failedToConnectText (r_serverUrl r))\<rparr>)"

text \<open>
  The connect timeout (lines 157 to 164). Its handle is not kept; when it fires it acts
  only if its own socket is still connecting.
\<close>

definition connectTimeout :: "nat \<Rightarrow> state \<Rightarrow> state" where
  "connectTimeout i s =
     (if i < length (sockets s) \<and> readyState (sockets s ! i) = CONNECTING
      then (wsClose i Plain s)\<lparr>isConnecting := False, error := Some connectionTimeoutText\<rparr>
      else s)"

text \<open>\<open>sendMessage\<close> (lines 174 to 196).\<close>

definition sendMessage :: "host \<Rightarrow> render \<Rightarrow> state \<Rightarrow> state" where
  "sendMessage h r s =
     (if trim (r_message r) = [] then s
      else if r_useMockServer r then
        let s1 = addMessage Sent (r_message r) s;
            response = mockServerResponse h (r_message r);
            s2 = snd (setTimeout 100 (MockReply response) s1)
        in s2\<lparr>message := []\<rparr>
      else if transportOpen s then
        (addMessage Sent (r_message r) (wsSend (the (wsRef s)) (r_message r) s))\<lparr>message := []\<rparr>
      else s\<lparr>error := Some notConnectedText\<rparr>)"

text \<open>\<open>closeConnection\<close> (lines 198 to 221).\<close>

definition closeConnection :: "render \<Rightarrow> state \<Rightarrow> state" where
  "closeConnection r s =
     (let s1 = clearRetryTimeout s
      in if r_useMockServer r then
           addMessage System disconnectedFromMockText
             (s1\<lparr>isConnected := False, connectionStatus := statusDisconnected, error := None\<rparr>)
         else
           let s2 = (case wsRef s1 of
                       None \<Rightarrow> s1
                     | Some i \<Rightarrow> (wsClose i (WithCode 1000 userClosedText) s1)\<lparr>wsRef := None\<rparr>)
           in s2\<lparr>isConnected := False, connectionStatus := statusDisconnected, error := None,
                 retryCount := 0\<rparr>)"

text \<open>\<open>clearMessages\<close> (lines 223 to 225) and \<open>toggleMockServer\<close> (lines 253 to 260).\<close>

definition clearMessages :: "state \<Rightarrow> state" where
  "clearMessages s = s\<lparr>messages := []\<rparr>"

definition toggleMockServer :: "render \<Rightarrow> bool \<Rightarrow> state \<Rightarrow> state" where
  "toggleMockServer r enabled s =
     (let s1 = s\<lparr>useMockServer := enabled\<rparr>;
          s2 = (if r_isConnected r then closeConnection r s1 else s1)
      in s2\<lparr>error := None, retryCount := 0\<rparr>)"

section \<open>The event loop\<close>

text \<open>
  The component is driven by three kinds of event, one at a time. An action of the user
  runs the callback of the current render, whose values are those of the current state.
  A signal of the transport runs the handler attached to its socket: the open signal comes
  to a connecting socket and makes it open, a message comes to an open socket, the close
  signal comes once and makes the socket closed, and the error signal changes no
  \<open>readyState\<close> by itself. A timer that fires leaves the pending timers and runs its
  action. Time itself is not modelled: a pending timer carries its delay, and any pending
  timer may be the next to fire. The cleanup that runs when the component is unmounted
  is outside the event loop.
\<close>

datatype event =
    TypeMessage jsstring
  | TypeServerUrl jsstring
  | ClickConnect
  | ClickSend
  | ClickDisconnect
  | ToggleMock bool
  | ClickClear
  | SocketOpen nat
  | SocketMessage nat jsstring
  | SocketError nat
  | SocketClose nat bool
  | TimerFires nat

definition runTimer :: "host \<Rightarrow> timerAction \<Rightarrow> state \<Rightarrow> state" where
  "runTimer h a s =
     (case a of
        RetryConnect r \<Rightarrow> connectToServer h r s
      | ConnectTimeout i \<Rightarrow> connectTimeout i s
      | MockReply response \<Rightarrow> addMessage Received response s)"

definition setReadyState :: "nat \<Rightarrow> readyState \<Rightarrow> state \<Rightarrow> state" where
  "setReadyState i q s = s\<lparr>sockets := (sockets s)[i := (sockets s ! i)\<lparr>readyState := q\<rparr>]\<rparr>"

definition step :: "host \<Rightarrow> event \<Rightarrow> state \<Rightarrow> state" where
  "step h e s =
     (case e of
        TypeMessage m \<Rightarrow> s\<lparr>message := m\<rparr>
      | TypeServerUrl u \<Rightarrow> s\<lparr>serverUrl := u\<rparr>
      | ClickConnect \<Rightarrow> connectToServer h (render_of s) s
      | ClickSend \<Rightarrow> sendMessage h (render_of s) s
      | ClickDisconnect \<Rightarrow> closeConnection (render_of s) s
      | ToggleMock enabled \<Rightarrow> toggleMockServer (render_of s) enabled s
      | ClickClear \<Rightarrow> clearMessages s
      | SocketOpen i \<Rightarrow>
          (if i < length (sockets s) \<and> readyState (sockets s ! i) = CONNECTING
           then ws_onopen (setReadyState i OPEN s) else s)
      | SocketMessage i d \<Rightarrow>
          (if i < length (sockets s) \<and> readyState (sockets s ! i) = OPEN
           then ws_onmessage d s else s)
      | SocketError i \<Rightarrow>
          (if i < length (sockets s) then ws_onerror (createdIn (sockets s ! i)) s else s)
      | SocketClose i wasClean \<Rightarrow>
          (if i < length (sockets s) \<and> readyState (sockets s ! i) \<noteq> CLOSED
           then ws_onclose (createdIn (sockets s ! i)) wasClean (setReadyState i CLOSED s)
           else s)
      | TimerFires t \<Rightarrow>
          (case find (\<lambda>x. fst x = t) (timers s) of
             None \<Rightarrow> s
           | Some x \<Rightarrow> runTimer h (snd (snd x)) (clearTimeout t s)))"

definition run :: "host \<Rightarrow> event list \<Rightarrow> state \<Rightarrow> state" where
  "run h es s = foldl (\<lambda>s e. step h e s) s es"

text \<open>
  What the rendered page lets the user do. The message input is disabled while the
  component is not connected, and the Send button while it is not connected or the draft
  is blank; Enter in the input calls \<open>sendMessage\<close> as the button does. The Connect button
  is rendered while the component is neither connected nor connecting, and the Retry Now
  button while an error is shown, the retry count is below \<open>maxRetries\<close> and no connect is
  under way; both call \<open>connectToServer\<close>. The Disconnect button is rendered while
  connected. The switch is disabled while connected and hands over the opposite of its
  current value. The URL input is rendered in live mode and disabled while connected or
  connecting. The Clear button is disabled while the log is empty. Signals of the
  transport and timers do not pass through the page. An event that the page does not offer
  leaves the state as it is.
\<close>

definition offered :: "event \<Rightarrow> state \<Rightarrow> bool" where
  "offered e s =
     (case e of
        TypeMessage m \<Rightarrow> isConnected s
      | TypeServerUrl u \<Rightarrow> \<not> useMockServer s \<and> \<not> isConnected s \<and> \<not> isConnecting s
      | ClickConnect \<Rightarrow>
          \<not> isConnecting s \<and>
          (\<not> isConnected s \<or>
           (error s \<noteq> None \<and> error s \<noteq> Some [] \<and> retryCount s < maxRetries))
      | ClickSend \<Rightarrow> isConnected s
      | ClickDisconnect \<Rightarrow> isConnected s
      | ToggleMock enabled \<Rightarrow> \<not> isConnected s \<and> enabled \<noteq> useMockServer s
      | ClickClear \<Rightarrow> messages s \<noteq> []
      | _ \<Rightarrow> True)"

definition pageStep :: "host \<Rightarrow> event \<Rightarrow> state \<Rightarrow> state" where
  "pageStep h e s = (if offered e s then step h e s else s)"

definition pageRun :: "host \<Rightarrow> event list \<Rightarrow> state \<Rightarrow> state" where
  "pageRun h es s = foldl (\<lambda>s e. pageStep h e s) s es"

text \<open>
  Timer handles are handed out in increasing order, so in every state the program reaches
  the next handle is larger than the handle of any pending timer.
\<close>

definition freshTimers :: "state \<Rightarrow> bool" where
  "freshTimers s \<longleftrightarrow> (\<forall>x\<in>set (timers s). fst x < timerSeq s)"

section \<open>Properties of the transform\<close>

lemma mockServerResponse_Cons:
  "mockServerResponse h (c # rest) =
     (if rest = [] then toUpperCase h [c] else toUpperCase h [c] @ rest)"
  by (simp add: mockServerResponse_def)

text \<open>
  C1. For every input string the simulator transform equals the reference definition:
  the fixed string for the empty input, the upper-cased character for an input of one
  character, and otherwise the upper-cased first character followed by the remaining
  characters unchanged. For an input longer than one character the tail of the output
  equals the tail of the input whenever the upper-casing of the first character is a
  single character.
\<close>

theorem mockServerResponse_refines_spec:
  "mockServerResponse h input = transform_spec h input \<and>
   (1 < length input \<and> length (toUpperCase h [input ! 0]) = 1 \<longrightarrow>
      tl (mockServerResponse h input) = tl input)"
proof (cases input)
  case Nil
  then show ?thesis by (simp add: mockServerResponse_def)
next
  case (Cons c rest)
  show ?thesis
  proof (cases rest)
    case Nil
    with Cons show ?thesis by (simp add: mockServerResponse_Cons)
  next
    case (Cons d rest')
    have "length (toUpperCase h [c]) = 1 \<Longrightarrow> tl (toUpperCase h [c] @ rest) = rest"
      by (cases "toUpperCase h [c]") simp_all
    with \<open>input = c # rest\<close> Cons show ?thesis
      by (simp add: mockServerResponse_Cons)
  qed
qed

theorem mockServerResponse_refines_spec_witness:
  "1 < length (ascii ''hello world'') \<and>
   length (toUpperCase demoHost [ascii ''hello world'' ! 0]) = 1 \<and>
   mockServerResponse demoHost (ascii ''hello world'') = ascii ''Hello world'' \<and>
   tl (mockServerResponse demoHost (ascii ''hello world'')) = tl (ascii ''hello world'')"
  using mockServerResponse_refines_spec [of demoHost "ascii ''hello world''"]
  by (simp add: ascii_def demoHost_def upperUnit_def)

text \<open>
  The tail of the output is not always the tail of the input: the upper-casing of the
  sharp s (U+00DF) is SS, so the input made of a sharp s and the letter a gives SSa, whose
  tail is Sa.
\<close>

theorem mockServerResponse_tail_counterexample:
  "1 < length [223, 97 :: nat] \<and>
   mockServerResponse demoHost [223, 97] = [83, 83, 97] \<and>
   tl (mockServerResponse demoHost [223, 97]) \<noteq> tl [223, 97]"
  by (simp add: mockServerResponse_def demoHost_def upperUnit_def)

section \<open>Evaluating the worked scenarios\<close>

lemma demoHost_accepts: "newWebSocketThrows demoHost (ascii ''ws://localhost:8765'') = None"
  by (simp add: demoHost_def ascii_def)

lemma trim_nonblank: "trim (ascii ''test'') \<noteq> []" "trim (ascii ''hi'') \<noteq> []"
  by (simp_all add: trim_def ascii_def isWhiteSpace_def)

lemma mock_test: "mockServerResponse demoHost (ascii ''test'') = ascii ''Test''"
  by (simp add: mockServerResponse_def demoHost_def upperUnit_def ascii_def)

lemmas evals = run_def step_def connectToServer_def ws_onopen_def ws_onclose_def ws_onerror_def
  ws_onmessage_def connectTimeout_def sendMessage_def closeConnection_def toggleMockServer_def
  clearMessages_def runTimer_def setReadyState_def addMessage_def setTimeout_def clearTimeout_def
  clearRetryTimeout_def wsClose_def wsSend_def transportOpen_def render_of_def init_def
  maxRetries_def Let_def demoHost_accepts trim_nonblank

lemmas pageEvals = pageRun_def pageStep_def offered_def evals

section \<open>What each callback leaves behind\<close>

lemma sendMessage_live_closed:
  "trim (r_message r) \<noteq> [] \<Longrightarrow> \<not> r_useMockServer r \<Longrightarrow> \<not> transportOpen s \<Longrightarrow>
   sendMessage h r s = s\<lparr>error := Some notConnectedText\<rparr>"
  by (simp add: sendMessage_def)

lemma sendMessage_mock:
  "trim (r_message r) \<noteq> [] \<Longrightarrow> r_useMockServer r \<Longrightarrow>
   sendMessage h r s =
     s\<lparr>messages := messages s @ [\<lparr>mtype = Sent, content = r_message r\<rparr>],
       timers := timers s @ [(timerSeq s, 100, MockReply (mockServerResponse h (r_message r)))],
       timerSeq := Suc (timerSeq s), message := []\<rparr>"
  by (simp add: sendMessage_def addMessage_def setTimeout_def Let_def)

lemma sendMessage_live_open:
  "trim (r_message r) \<noteq> [] \<Longrightarrow> \<not> r_useMockServer r \<Longrightarrow> transportOpen s \<Longrightarrow>
   sendMessage h r s =
     (wsSend (the (wsRef s)) (r_message r) s)
       \<lparr>messages := messages s @ [\<lparr>mtype = Sent, content = r_message r\<rparr>], message := []\<rparr>"
  by (simp add: sendMessage_def addMessage_def wsSend_def)

lemma ws_onclose_retry:
  "r_retryCount r < maxRetries \<Longrightarrow>
   ws_onclose r False s =
     s\<lparr>isConnected := False, isConnecting := False, wsRef := None,
       connectionStatus := statusConnectionLost,
       messages := messages s @ [\<lparr>mtype = System, content = connectionLostText\<rparr>],
       retryCount := r_retryCount r + 1,
       error := Some (retryingText (r_retryCount r + 1)),
       timers := timers s @ [(timerSeq s, 2000 * (r_retryCount r + 1), RetryConnect r)],
       timerSeq := Suc (timerSeq s),
       retryTimeoutRef := Some (timerSeq s)\<rparr>"
  by (simp add: ws_onclose_def addMessage_def setTimeout_def Let_def)

lemma ws_onclose_give_up:
  "\<not> r_retryCount r < maxRetries \<Longrightarrow>
   ws_onclose r False s =
     s\<lparr>isConnected := False, isConnecting := False, wsRef := None,
       connectionStatus := statusConnectionLost,
       messages := messages s @ [\<lparr>mtype = System, content = connectionLostText\<rparr>],
       error := Some failedAfterRetriesText\<rparr>"
  by (simp add: ws_onclose_def addMessage_def Let_def)

lemma ws_onclose_clean:
  "ws_onclose r True s =
     s\<lparr>isConnected := False, isConnecting := False, wsRef := None,
       connectionStatus := statusDisconnected,
       messages := messages s @ [\<lparr>mtype = System, content = connectionClosedText\<rparr>]\<rparr>"
  by (simp add: ws_onclose_def addMessage_def Let_def)

lemma step_SocketClose:
  "i < length (sockets s) \<Longrightarrow> readyState (sockets s ! i) \<noteq> CLOSED \<Longrightarrow>
   step h (SocketClose i wasClean) s =
     ws_onclose (createdIn (sockets s ! i)) wasClean (setReadyState i CLOSED s)"
  by (simp add: step_def)

lemma step_SocketError:
  "i < length (sockets s) \<Longrightarrow>
   step h (SocketError i) s = ws_onerror (createdIn (sockets s ! i)) s"
  by (simp add: step_def)

lemma ws_onerror_fields:
  "timers (ws_onerror r s) = timers s \<and> timerSeq (ws_onerror r s) = timerSeq s \<and>
   sockets (ws_onerror r s) = sockets s \<and>
   retryTimeoutRef (ws_onerror r s) = retryTimeoutRef s \<and>
   retryCount (ws_onerror r s) = retryCount s \<and>
   isConnected (ws_onerror r s) = isConnected s \<and>
   error (ws_onerror r s) = Some (failedToConnectText (r_serverUrl r)) \<and>
   connectionStatus (ws_onerror r s) = statusConnectionError"
  by (simp add: ws_onerror_def addMessage_def)

lemma connectTimeout_fields:
  "timers (connectTimeout i s) = timers s \<and> timerSeq (connectTimeout i s) = timerSeq s \<and>
   length (sockets (connectTimeout i s)) = length (sockets s) \<and>
   retryTimeoutRef (connectTimeout i s) = retryTimeoutRef s \<and>
   retryCount (connectTimeout i s) = retryCount s \<and>
   isConnected (connectTimeout i s) = isConnected s \<and>
   (i < length (sockets s) \<and> readyState (sockets s ! i) = CONNECTING \<longrightarrow>
      readyState (sockets (connectTimeout i s) ! i) = CLOSING \<and>
      createdIn (sockets (connectTimeout i s) ! i) = createdIn (sockets s ! i) \<and>
      \<not> isConnecting (connectTimeout i s) \<and>
      error (connectTimeout i s) = Some connectionTimeoutText)"
  by (simp add: connectTimeout_def wsClose_def)

lemma connectTimeout_ignored:
  "\<not> (i < length (sockets s) \<and> readyState (sockets s ! i) = CONNECTING) \<Longrightarrow>
   connectTimeout i s = s"
  by (auto simp: connectTimeout_def)

lemma clearRetryTimeout_timers:
  "timers (clearRetryTimeout s) =
     (case retryTimeoutRef s of None \<Rightarrow> timers s
      | Some t \<Rightarrow> filter (\<lambda>x. fst x \<noteq> t) (timers s)) \<and>
   retryTimeoutRef (clearRetryTimeout s) = None"
  by (simp add: clearRetryTimeout_def clearTimeout_def split: option.splits)

lemma clearRetryTimeout_sockets:
  "sockets (clearRetryTimeout s) = sockets s \<and> wsRef (clearRetryTimeout s) = wsRef s \<and>
   retryCount (clearRetryTimeout s) = retryCount s"
  by (simp add: clearRetryTimeout_def clearTimeout_def split: option.splits)

lemma wsClose_fields:
  "timers (wsClose i c s) = timers s \<and> retryTimeoutRef (wsClose i c s) = retryTimeoutRef s \<and>
   length (sockets (wsClose i c s)) = length (sockets s) \<and>
   (i < length (sockets s) \<longrightarrow>
      readyState (sockets (wsClose i c s) ! i) \<noteq> CONNECTING \<and>
      readyState (sockets (wsClose i c s) ! i) \<noteq> OPEN \<and>
      (readyState (sockets s ! i) = CONNECTING \<or> readyState (sockets s ! i) = OPEN \<longrightarrow>
         readyState (sockets (wsClose i c s) ! i) = CLOSING \<and>
         closeCall (sockets (wsClose i c s) ! i) = c))"
  by (cases "readyState (sockets s ! i)") (simp_all add: wsClose_def)

lemma closeConnection_mock:
  "r_useMockServer r \<Longrightarrow>
   closeConnection r s =
     (clearRetryTimeout s)
       \<lparr>isConnected := False, connectionStatus := statusDisconnected, error := None,
        messages := messages s @ [\<lparr>mtype = System, content = disconnectedFromMockText\<rparr>]\<rparr>"
  by (simp add: closeConnection_def addMessage_def clearRetryTimeout_def clearTimeout_def
      Let_def split: option.splits)

lemma closeConnection_live:
  "\<not> r_useMockServer r \<Longrightarrow>
   closeConnection r s =
     (case wsRef s of
        None \<Rightarrow> clearRetryTimeout s
      | Some i \<Rightarrow> (wsClose i (WithCode 1000 userClosedText) (clearRetryTimeout s))\<lparr>wsRef := None\<rparr>)
       \<lparr>isConnected := False, connectionStatus := statusDisconnected, error := None,
        retryCount := 0\<rparr>"
  by (simp add: closeConnection_def clearRetryTimeout_def clearTimeout_def
      Let_def split: option.splits)

lemma closeConnection_timers:
  "retryTimeoutRef (closeConnection r s) = None \<and>
   timers (closeConnection r s) =
     (case retryTimeoutRef s of None \<Rightarrow> timers s
      | Some t \<Rightarrow> filter (\<lambda>x. fst x \<noteq> t) (timers s))"
proof (cases "r_useMockServer r")
  case True
  then show ?thesis by (simp add: closeConnection_mock clearRetryTimeout_timers)
next
  case False
  then show ?thesis
    by (cases "wsRef s")
       (simp_all add: closeConnection_live clearRetryTimeout_timers wsClose_fields)
qed

lemma closeConnection_closes_handle:
  assumes "\<not> r_useMockServer r" and "wsRef s = Some i" and "i < length (sockets s)"
  shows "readyState (sockets (closeConnection r s) ! i) \<noteq> CONNECTING \<and>
         readyState (sockets (closeConnection r s) ! i) \<noteq> OPEN \<and>
         (readyState (sockets s ! i) = CONNECTING \<or> readyState (sockets s ! i) = OPEN \<longrightarrow>
            closeCall (sockets (closeConnection r s) ! i) = WithCode 1000 userClosedText)"
  using assms wsClose_fields [of i "WithCode 1000 userClosedText" "clearRetryTimeout s"]
  by (simp add: closeConnection_live clearRetryTimeout_sockets)

lemma connectToServer_timers:
  assumes "\<not> r_isConnecting r"
  shows "retryTimeoutRef (connectToServer h r s) = None \<and>
         timers (connectToServer h r s) =
           (case retryTimeoutRef s of None \<Rightarrow> timers s
            | Some t \<Rightarrow> filter (\<lambda>x. fst x \<noteq> t) (timers s)) @
           (if \<not> r_useMockServer r \<and> newWebSocketThrows h (r_serverUrl r) = None
            then [(timerSeq s, 5000, ConnectTimeout (length (sockets s)))] else [])"
  using assms
  by (simp add: connectToServer_def clearRetryTimeout_def clearTimeout_def wsClose_def
      addMessage_def setTimeout_def Let_def split: option.splits)

lemma connectToServer_closes_handle:
  assumes "\<not> r_isConnecting r" and "wsRef s = Some i" and "i < length (sockets s)"
  shows "readyState (sockets (connectToServer h r s) ! i) \<noteq> CONNECTING \<and>
         readyState (sockets (connectToServer h r s) ! i) \<noteq> OPEN"
  using assms
  by (cases "readyState (sockets s ! i)")
     (simp_all add: connectToServer_def clearRetryTimeout_def clearTimeout_def wsClose_def
      addMessage_def setTimeout_def Let_def nth_append split: option.splits)

subsection \<open>Timer handles stay fresh\<close>

lemma find_fresh:
  "\<forall>x\<in>set xs. fst x \<noteq> t \<Longrightarrow> find (\<lambda>x. fst x = t) (xs @ [(t, y)]) = Some (t, y)"
  by (induction xs) auto

lemma filter_fresh:
  "\<forall>x\<in>set xs. fst x \<noteq> t \<Longrightarrow> filter (\<lambda>x. fst x \<noteq> t) (xs @ [(t, y)]) = xs"
  by (induction xs) auto

lemma freshTimers_neq: "freshTimers s \<Longrightarrow> \<forall>x\<in>set (timers s). fst x \<noteq> timerSeq s"
  by (auto simp: freshTimers_def)

lemma fire_last_timer:
  assumes "freshTimers s"
  shows "step h (TimerFires (timerSeq s))
           (s\<lparr>timers := timers s @ [(timerSeq s, ms, a)], timerSeq := Suc (timerSeq s)\<rparr>) =
         runTimer h a (s\<lparr>timerSeq := Suc (timerSeq s)\<rparr>)"
  using freshTimers_neq [OF assms]
  by (simp add: step_def clearTimeout_def find_fresh filter_fresh)

lemma freshTimers_connectToServer: "freshTimers s \<Longrightarrow> freshTimers (connectToServer h r s)"
  by (auto simp: freshTimers_def connectToServer_def clearRetryTimeout_def clearTimeout_def
      wsClose_def addMessage_def setTimeout_def Let_def less_Suc_eq split: option.splits)

lemma freshTimers_closeConnection: "freshTimers s \<Longrightarrow> freshTimers (closeConnection r s)"
  by (auto simp: freshTimers_def closeConnection_def clearRetryTimeout_def clearTimeout_def
      wsClose_def addMessage_def Let_def split: option.splits)

lemma freshTimers_sendMessage: "freshTimers s \<Longrightarrow> freshTimers (sendMessage h r s)"
  by (auto simp: freshTimers_def sendMessage_def wsSend_def addMessage_def setTimeout_def
      Let_def less_Suc_eq)

lemma freshTimers_ws_onclose: "freshTimers s \<Longrightarrow> freshTimers (ws_onclose r c s)"
  by (cases c; cases "r_retryCount r < maxRetries")
     (auto simp: freshTimers_def ws_onclose_clean ws_onclose_retry ws_onclose_give_up less_Suc_eq)

lemma freshTimers_clearTimeout: "freshTimers s \<Longrightarrow> freshTimers (clearTimeout t s)"
  by (auto simp: freshTimers_def clearTimeout_def)

lemma freshTimers_runTimer:
  assumes "freshTimers s"
  shows "freshTimers (runTimer h a s)"
proof (cases a)
  case (RetryConnect r)
  with assms show ?thesis by (simp add: runTimer_def freshTimers_connectToServer)
next
  case (ConnectTimeout i)
  with assms show ?thesis
    by (simp add: runTimer_def connectTimeout_def wsClose_def freshTimers_def)
next
  case (MockReply m)
  with assms show ?thesis by (simp add: runTimer_def addMessage_def freshTimers_def)
qed

lemma freshTimers_step:
  assumes "freshTimers s"
  shows "freshTimers (step h e s)"
proof (cases e)
  case ClickConnect
  with assms show ?thesis by (simp add: step_def freshTimers_connectToServer)
next
  case ClickSend
  with assms show ?thesis by (simp add: step_def freshTimers_sendMessage)
next
  case ClickDisconnect
  with assms show ?thesis by (simp add: step_def freshTimers_closeConnection)
next
  case (ToggleMock b)
  have "freshTimers (s\<lparr>useMockServer := b\<rparr>)"
    using assms by (simp add: freshTimers_def)
  then have "freshTimers (closeConnection (render_of s) (s\<lparr>useMockServer := b\<rparr>))"
    by (rule freshTimers_closeConnection)
  with assms ToggleMock show ?thesis
    by (simp add: step_def toggleMockServer_def Let_def freshTimers_def)
next
  case (SocketClose i c)
  have "freshTimers (setReadyState i CLOSED s)"
    using assms by (simp add: freshTimers_def setReadyState_def)
  then have "freshTimers (ws_onclose (createdIn (sockets s ! i)) c (setReadyState i CLOSED s))"
    by (rule freshTimers_ws_onclose)
  with assms SocketClose show ?thesis by (simp add: step_def)
next
  case (TimerFires t)
  with assms show ?thesis
    by (simp add: step_def freshTimers_runTimer freshTimers_clearTimeout split: option.splits)
next
  case (TypeMessage m)
  with assms show ?thesis by (simp add: step_def freshTimers_def)
next
  case (TypeServerUrl u)
  with assms show ?thesis by (simp add: step_def freshTimers_def)
next
  case ClickClear
  with assms show ?thesis by (simp add: step_def freshTimers_def clearMessages_def)
next
  case (SocketOpen i)
  with assms show ?thesis
    by (simp add: step_def freshTimers_def ws_onopen_def addMessage_def setReadyState_def)
next
  case (SocketMessage i d)
  with assms show ?thesis by (simp add: step_def freshTimers_def ws_onmessage_def addMessage_def)
next
  case (SocketError i)
  with assms show ?thesis by (simp add: step_def freshTimers_def ws_onerror_def addMessage_def)
qed

lemma freshTimers_run: "freshTimers s \<Longrightarrow> freshTimers (run h es s)"
  unfolding run_def by (induction es arbitrary: s) (simp_all add: freshTimers_step)

text \<open>Every state that the component reaches from its first render has fresh handles.\<close>

lemma freshTimers_reachable: "freshTimers (run h es init)"
  by (rule freshTimers_run) (simp add: freshTimers_def init_def)

section \<open>Sending\<close>




text \<open>
  C10. For a non-blank draft: whenever the send succeeds (simulated mode, or live mode
  with the transport open) the draft is empty afterwards; whenever a live-mode send finds
  the transport handle absent or not open, the draft and the message log are left as
  they were and the error text is the only thing that changes.
\<close>

theorem send_draft_atomic:
  assumes "trim (r_message r) \<noteq> []"
  shows "(r_useMockServer r \<or> transportOpen s \<longrightarrow> message (sendMessage h r s) = []) \<and>
         (\<not> r_useMockServer r \<and> \<not> transportOpen s \<longrightarrow>
            sendMessage h r s = s\<lparr>error := Some notConnectedText\<rparr> \<and>
            message (sendMessage h r s) = message s \<and>
            messages (sendMessage h r s) = messages s)"
  using assms
  by (cases "r_useMockServer r"; cases "transportOpen s")
     (simp_all add: sendMessage_live_closed sendMessage_mock sendMessage_live_open)

theorem send_draft_atomic_witness:
  "trim (ascii ''hi'') \<noteq> [] \<and>
   message (run demoHost [ToggleMock True, ClickConnect, TypeMessage (ascii ''hi''), ClickSend] init) = [] \<and>
   message (run demoHost [TypeMessage (ascii ''hi''), ClickSend] init) = ascii ''hi'' \<and>
   messages (run demoHost [TypeMessage (ascii ''hi''), ClickSend] init) = [] \<and>
   error (run demoHost [TypeMessage (ascii ''hi''), ClickSend] init) = Some notConnectedText"
  using send_draft_atomic [of "render_of (run demoHost [ToggleMock True, ClickConnect, TypeMessage (ascii ''hi'')] init)"
      "run demoHost [ToggleMock True, ClickConnect, TypeMessage (ascii ''hi'')] init" demoHost]
    send_draft_atomic [of "render_of (run demoHost [TypeMessage (ascii ''hi'')] init)"
      "run demoHost [TypeMessage (ascii ''hi'')] init" demoHost]
  by (simp add: evals)

text \<open>
  C4. In simulated mode, for every text that is non-blank after trim, the send appends
  exactly one sent event with the original text at once, schedules one timer of 100 ms,
  and sets no error; when that timer fires, exactly one received event is appended, whose
  content is the transform of the text, and the timer is gone. The handles are fresh in
  every reachable state (\<open>freshTimers_reachable\<close>).
\<close>

theorem send_mock_roundtrip:
  assumes "trim (r_message r) \<noteq> []" and "r_useMockServer r" and "freshTimers s"
  shows "messages (sendMessage h r s) = messages s @ [\<lparr>mtype = Sent, content = r_message r\<rparr>] \<and>
         timers (sendMessage h r s) =
           timers s @ [(timerSeq s, 100, MockReply (mockServerResponse h (r_message r)))] \<and>
         error (sendMessage h r s) = error s \<and>
         messages (step h (TimerFires (timerSeq s)) (sendMessage h r s)) =
           messages s @ [\<lparr>mtype = Sent, content = r_message r\<rparr>,
                         \<lparr>mtype = Received, content = mockServerResponse h (r_message r)\<rparr>] \<and>
         timers (step h (TimerFires (timerSeq s)) (sendMessage h r s)) = timers s"
proof -
  let ?s1 = "s\<lparr>messages := messages s @ [\<lparr>mtype = Sent, content = r_message r\<rparr>], message := []\<rparr>"
  have send: "sendMessage h r s =
      ?s1\<lparr>timers := timers ?s1 @ [(timerSeq ?s1, 100, MockReply (mockServerResponse h (r_message r)))],
          timerSeq := Suc (timerSeq ?s1)\<rparr>"
    using assms(1,2) by (simp add: sendMessage_mock)
  have fresh: "freshTimers ?s1"
    using assms(3) by (simp add: freshTimers_def)
  have fire: "step h (TimerFires (timerSeq s)) (sendMessage h r s) =
      runTimer h (MockReply (mockServerResponse h (r_message r))) (?s1\<lparr>timerSeq := Suc (timerSeq ?s1)\<rparr>)"
    using fire_last_timer [OF fresh, of h 100 "MockReply (mockServerResponse h (r_message r))"]
    by (simp add: send)
  show ?thesis
    by (simp add: fire runTimer_def addMessage_def) (simp add: send)
qed

theorem send_mock_roundtrip_witness:
  "trim (ascii ''test'') \<noteq> [] \<and>
   useMockServer (run demoHost [ToggleMock True, ClickConnect, TypeMessage (ascii ''test'')] init) \<and>
   freshTimers (run demoHost [ToggleMock True, ClickConnect, TypeMessage (ascii ''test'')] init) \<and>
   messages (run demoHost [ToggleMock True, ClickConnect, TypeMessage (ascii ''test''), ClickSend] init) =
     [\<lparr>mtype = System, content = connectedToMockText\<rparr>,
      \<lparr>mtype = Sent, content = ascii ''test''\<rparr>] \<and>
   timers (run demoHost [ToggleMock True, ClickConnect, TypeMessage (ascii ''test''), ClickSend] init) =
     [(1, 100, MockReply (ascii ''Test''))] \<and>
   messages (run demoHost [ToggleMock True, ClickConnect, TypeMessage (ascii ''test''), ClickSend,
       TimerFires 1] init) =
     [\<lparr>mtype = System, content = connectedToMockText\<rparr>,
      \<lparr>mtype = Sent, content = ascii ''test''\<rparr>,
      \<lparr>mtype = Received, content = ascii ''Test''\<rparr>]"
  using send_mock_roundtrip [of "render_of (run demoHost [ToggleMock True, ClickConnect, TypeMessage (ascii ''test'')] init)"
      "run demoHost [ToggleMock True, ClickConnect, TypeMessage (ascii ''test'')] init" demoHost]
  by (simp add: evals freshTimers_def mock_test)

section \<open>The retry policy\<close>

text \<open>
  The formula of the close handler: when the handler computes the attempt number k (the
  retry count of its render plus one), the retry is scheduled after 2000 ms times k.
\<close>

lemma close_handler_delay:
  assumes "1 \<le> k" and "k \<le> maxRetries"
    and "i < length (sockets s)" and "readyState (sockets s ! i) \<noteq> CLOSED"
    and "r_retryCount (createdIn (sockets s ! i)) = k - 1"
  shows "timers (step h (SocketClose i False) s) =
           timers s @ [(timerSeq s, 2000 * k, RetryConnect (createdIn (sockets s ! i)))] \<and>
         retryTimeoutRef (step h (SocketClose i False) s) = Some (timerSeq s) \<and>
         retryCount (step h (SocketClose i False) s) = k \<and>
         error (step h (SocketClose i False) s) = Some (retryingText k) \<and>
         2000 * k \<noteq> 2000 * 2 ^ k"
proof -
  let ?r = "createdIn (sockets s ! i)"
  have below: "r_retryCount ?r < maxRetries" and succ: "r_retryCount ?r + 1 = k"
    using assms(1,2,5) by simp_all
  have "k \<noteq> 2 ^ k"
    using less_exp [of k] by (rule less_imp_neq)
  then have "2000 * k \<noteq> 2000 * 2 ^ k" by simp
  moreover have "step h (SocketClose i False) s = ws_onclose ?r False (setReadyState i CLOSED s)"
    using assms(3,4) by (rule step_SocketClose)
  ultimately show ?thesis
    using succ by (simp add: ws_onclose_retry [OF below] setReadyState_def)
qed

text \<open>
  C5. The k-th automatic retry should come after 2000 ms times k: 2000, 4000, 6000. In
  the chain of automatic retries that follows one click on Connect the attempt number
  never advances, because every socket of the chain is created by the
  \<open>connectToServer\<close> of the render of that click: the second and the third automatic retry
  are both scheduled after 2000 ms, and the retry count stays at 1.
\<close>

theorem automatic_retry_delay_stays_at_2000:
  "timers (pageRun demoHost
     [ClickConnect, SocketError 0, SocketClose 0 False,
      TimerFires 2, SocketError 1, SocketClose 1 False] init) =
     [(1, 5000, ConnectTimeout 0), (3, 5000, ConnectTimeout 1),
      (4, 2000, RetryConnect (render_of init))] \<and>
   timers (pageRun demoHost
     [ClickConnect, SocketError 0, SocketClose 0 False,
      TimerFires 2, SocketError 1, SocketClose 1 False,
      TimerFires 4, SocketError 2, SocketClose 2 False] init) =
     [(1, 5000, ConnectTimeout 0), (3, 5000, ConnectTimeout 1), (5, 5000, ConnectTimeout 2),
      (6, 2000, RetryConnect (render_of init))] \<and>
   retryCount (pageRun demoHost
     [ClickConnect, SocketError 0, SocketClose 0 False,
      TimerFires 2, SocketError 1, SocketClose 1 False,
      TimerFires 4, SocketError 2, SocketClose 2 False] init) = 1"
  by (simp add: pageEvals)

text \<open>
  What the three handlers do. The close handler schedules the retry while the retry count
  of its render is below \<open>maxRetries\<close> and otherwise sets the terminal error. The handler
  of the error signal and the connect timeout schedule nothing themselves; the retry is
  scheduled when the unclean close of the same socket follows them.
\<close>

lemma recoverable_errors_policy:
  "(r_retryCount r < maxRetries \<longrightarrow>
      timers (ws_onclose r False s) =
        timers s @ [(timerSeq s, 2000 * (r_retryCount r + 1), RetryConnect r)] \<and>
      retryTimeoutRef (ws_onclose r False s) = Some (timerSeq s) \<and>
      error (ws_onclose r False s) = Some (retryingText (r_retryCount r + 1))) \<and>
   (\<not> r_retryCount r < maxRetries \<longrightarrow>
      timers (ws_onclose r False s) = timers s \<and>
      retryTimeoutRef (ws_onclose r False s) = retryTimeoutRef s \<and>
      retryCount (ws_onclose r False s) = retryCount s \<and>
      error (ws_onclose r False s) = Some failedAfterRetriesText) \<and>
   timers (ws_onerror r s) = timers s \<and>
   retryTimeoutRef (ws_onerror r s) = retryTimeoutRef s \<and>
   retryCount (ws_onerror r s) = retryCount s \<and>
   error (ws_onerror r s) = Some (failedToConnectText (r_serverUrl r)) \<and>
   connectionStatus (ws_onerror r s) = statusConnectionError \<and>
   timers (connectTimeout i s) = timers s \<and>
   retryTimeoutRef (connectTimeout i s) = retryTimeoutRef s \<and>
   retryCount (connectTimeout i s) = retryCount s \<and>
   (i < length (sockets s) \<and> readyState (sockets s ! i) = CONNECTING \<longrightarrow>
      readyState (sockets (connectTimeout i s) ! i) = CLOSING \<and>
      \<not> isConnecting (connectTimeout i s) \<and>
      error (connectTimeout i s) = Some connectionTimeoutText) \<and>
   (i < length (sockets s) \<and> readyState (sockets s ! i) \<noteq> CLOSED \<and>
    r_retryCount (createdIn (sockets s ! i)) < maxRetries \<longrightarrow>
      timers (step h (SocketClose i False) (step h (SocketError i) s)) =
        timers s @ [(timerSeq s, 2000 * (r_retryCount (createdIn (sockets s ! i)) + 1),
                     RetryConnect (createdIn (sockets s ! i)))]) \<and>
   (i < length (sockets s) \<and> readyState (sockets s ! i) = CONNECTING \<and>
    r_retryCount (createdIn (sockets s ! i)) < maxRetries \<longrightarrow>
      timers (step h (SocketClose i False) (connectTimeout i s)) =
        timers s @ [(timerSeq s, 2000 * (r_retryCount (createdIn (sockets s ! i)) + 1),
                     RetryConnect (createdIn (sockets s ! i)))])"
proof -
  have close: "r_retryCount r < maxRetries \<longrightarrow>
      timers (ws_onclose r False s) =
        timers s @ [(timerSeq s, 2000 * (r_retryCount r + 1), RetryConnect r)] \<and>
      retryTimeoutRef (ws_onclose r False s) = Some (timerSeq s) \<and>
      error (ws_onclose r False s) = Some (retryingText (r_retryCount r + 1))"
    by (simp add: ws_onclose_retry)
  have stop: "\<not> r_retryCount r < maxRetries \<longrightarrow>
      timers (ws_onclose r False s) = timers s \<and>
      retryTimeoutRef (ws_onclose r False s) = retryTimeoutRef s \<and>
      retryCount (ws_onclose r False s) = retryCount s \<and>
      error (ws_onclose r False s) = Some failedAfterRetriesText"
    by (simp add: ws_onclose_give_up)
  have err: "timers (ws_onerror r s) = timers s \<and>
      retryTimeoutRef (ws_onerror r s) = retryTimeoutRef s \<and>
      retryCount (ws_onerror r s) = retryCount s \<and>
      error (ws_onerror r s) = Some (failedToConnectText (r_serverUrl r)) \<and>
      connectionStatus (ws_onerror r s) = statusConnectionError"
    by (simp add: ws_onerror_fields)
  have tmo: "timers (connectTimeout i s) = timers s \<and>
      retryTimeoutRef (connectTimeout i s) = retryTimeoutRef s \<and>
      retryCount (connectTimeout i s) = retryCount s \<and>
      (i < length (sockets s) \<and> readyState (sockets s ! i) = CONNECTING \<longrightarrow>
         readyState (sockets (connectTimeout i s) ! i) = CLOSING \<and>
         \<not> isConnecting (connectTimeout i s) \<and>
         error (connectTimeout i s) = Some connectionTimeoutText)"
    by (simp add: connectTimeout_fields)
  have err_close: "i < length (sockets s) \<and> readyState (sockets s ! i) \<noteq> CLOSED \<and>
      r_retryCount (createdIn (sockets s ! i)) < maxRetries \<longrightarrow>
      timers (step h (SocketClose i False) (step h (SocketError i) s)) =
        timers s @ [(timerSeq s, 2000 * (r_retryCount (createdIn (sockets s ! i)) + 1),
                     RetryConnect (createdIn (sockets s ! i)))]"
  proof (intro impI, elim conjE)
    let ?r = "createdIn (sockets s ! i)"
    let ?s1 = "ws_onerror ?r s"
    assume i: "i < length (sockets s)" and q: "readyState (sockets s ! i) \<noteq> CLOSED"
      and below: "r_retryCount ?r < maxRetries"
    have "step h (SocketClose i False) ?s1 = ws_onclose ?r False (setReadyState i CLOSED ?s1)"
      using i q step_SocketClose [of i ?s1 h False] by (simp add: ws_onerror_fields)
    then show "timers (step h (SocketClose i False) (step h (SocketError i) s)) =
        timers s @ [(timerSeq s, 2000 * (r_retryCount ?r + 1), RetryConnect ?r)]"
      using i by (simp add: step_SocketError ws_onclose_retry [OF below] setReadyState_def
          ws_onerror_fields)
  qed
  have tmo_close: "i < length (sockets s) \<and> readyState (sockets s ! i) = CONNECTING \<and>
      r_retryCount (createdIn (sockets s ! i)) < maxRetries \<longrightarrow>
      timers (step h (SocketClose i False) (connectTimeout i s)) =
        timers s @ [(timerSeq s, 2000 * (r_retryCount (createdIn (sockets s ! i)) + 1),
                     RetryConnect (createdIn (sockets s ! i)))]"
  proof (intro impI, elim conjE)
    let ?r = "createdIn (sockets s ! i)"
    let ?s1 = "connectTimeout i s"
    assume i: "i < length (sockets s)" and q: "readyState (sockets s ! i) = CONNECTING"
      and below: "r_retryCount ?r < maxRetries"
    have s1: "i < length (sockets ?s1)" "readyState (sockets ?s1 ! i) \<noteq> CLOSED"
      "createdIn (sockets ?s1 ! i) = ?r"
      using i q connectTimeout_fields [of i s] by simp_all
    have "step h (SocketClose i False) ?s1 = ws_onclose ?r False (setReadyState i CLOSED ?s1)"
      using step_SocketClose [OF s1(1,2), of h False] by (simp add: s1(3))
    then show "timers (step h (SocketClose i False) ?s1) =
        timers s @ [(timerSeq s, 2000 * (r_retryCount ?r + 1), RetryConnect ?r)]"
      by (simp add: ws_onclose_retry [OF below] setReadyState_def connectTimeout_fields)
  qed
  from close stop err tmo err_close tmo_close show ?thesis by blast
qed

text \<open>
  C3. Each recoverable error should lead to a retry while the retry count is below
  \<open>maxRetries\<close>, and after \<open>maxRetries\<close> to a terminal error. The first half holds: after a
  transport error, and after a connect timeout, the unclean close that follows schedules
  the retry. The second half is never reached by the automatic chain: after one click on
  Connect and four recoverable errors in a row (a transport error, a connect timeout, an
  unclean close, a transport error) the retry count is 1, the error text is still
  "Retrying... (1/3)" and a fifth attempt is scheduled.
\<close>

theorem recoverable_errors_never_terminal:
  "timers (pageRun demoHost [ClickConnect, SocketError 0, SocketClose 0 False] init) =
     [(1, 5000, ConnectTimeout 0), (2, 2000, RetryConnect (render_of init))] \<and>
   timers (pageRun demoHost
     [ClickConnect, SocketError 0, SocketClose 0 False,
      TimerFires 2, TimerFires 3, SocketClose 1 False] init) =
     [(1, 5000, ConnectTimeout 0), (4, 2000, RetryConnect (render_of init))] \<and>
   retryCount (pageRun demoHost
     [ClickConnect, SocketError 0, SocketClose 0 False,
      TimerFires 2, TimerFires 3, SocketClose 1 False,
      TimerFires 4, SocketClose 2 False,
      TimerFires 6, SocketError 3, SocketClose 3 False] init) = 1 \<and>
   error (pageRun demoHost
     [ClickConnect, SocketError 0, SocketClose 0 False,
      TimerFires 2, TimerFires 3, SocketClose 1 False,
      TimerFires 4, SocketClose 2 False,
      TimerFires 6, SocketError 3, SocketClose 3 False] init) = Some (retryingText 1) \<and>
   timers (pageRun demoHost
     [ClickConnect, SocketError 0, SocketClose 0 False,
      TimerFires 2, TimerFires 3, SocketClose 1 False,
      TimerFires 4, SocketClose 2 False,
      TimerFires 6, SocketError 3, SocketClose 3 False] init) =
     [(1, 5000, ConnectTimeout 0), (5, 5000, ConnectTimeout 2), (7, 5000, ConnectTimeout 3),
      (8, 2000, RetryConnect (render_of init))]"
  by (simp add: pageEvals)

text \<open>
  C6. After \<open>maxRetries\<close> consecutive unclean closes no further retry should be
  scheduled and a terminal error should be shown. The program does not get there on its own:
  the retry timer calls the \<open>connectToServer\<close> of the render that was current when the
  user connected, so each new socket's close handler again sees the retry count 0. After
  one connect and four consecutive failed attempts (error signal, unclean close, retry
  timer) the retry count is 1, the error text is still "Retrying... (1/3)" and a fifth
  attempt is scheduled after 2000 ms.
\<close>

theorem retry_chain_never_gives_up:
  "retryCount (run demoHost
     [ClickConnect, SocketError 0, SocketClose 0 False,
      TimerFires 2, SocketError 1, SocketClose 1 False,
      TimerFires 4, SocketError 2, SocketClose 2 False,
      TimerFires 6, SocketError 3, SocketClose 3 False] init) = 1 \<and>
   error (run demoHost
     [ClickConnect, SocketError 0, SocketClose 0 False,
      TimerFires 2, SocketError 1, SocketClose 1 False,
      TimerFires 4, SocketError 2, SocketClose 2 False,
      TimerFires 6, SocketError 3, SocketClose 3 False] init) = Some (retryingText 1) \<and>
   timers (run demoHost
     [ClickConnect, SocketError 0, SocketClose 0 False,
      TimerFires 2, SocketError 1, SocketClose 1 False,
      TimerFires 4, SocketError 2, SocketClose 2 False,
      TimerFires 6, SocketError 3, SocketClose 3 False] init) =
     [(1, 5000, ConnectTimeout 0), (3, 5000, ConnectTimeout 1), (5, 5000, ConnectTimeout 2),
      (7, 5000, ConnectTimeout 3), (8, 2000, RetryConnect (render_of init))]"
  by (simp add: evals)

subsection \<open>The retry count\<close>

lemma connectToServer_retryCount:
  "retryCount (connectToServer h r s) \<le> retryCount s \<and>
   (isConnected (connectToServer h r s) \<longrightarrow> isConnected s \<or> retryCount (connectToServer h r s) = 0)"
  by (simp add: connectToServer_def clearRetryTimeout_def clearTimeout_def wsClose_def
      addMessage_def setTimeout_def Let_def split: option.splits)

lemma closeConnection_retryCount:
  "retryCount (closeConnection r s) \<le> retryCount s \<and> \<not> isConnected (closeConnection r s)"
  by (simp add: closeConnection_def clearRetryTimeout_def clearTimeout_def wsClose_def
      addMessage_def Let_def split: option.splits)

lemma sendMessage_retryCount:
  "retryCount (sendMessage h r s) = retryCount s \<and>
   isConnected (sendMessage h r s) = isConnected s"
  by (simp add: sendMessage_def addMessage_def setTimeout_def wsSend_def Let_def)

lemma toggleMockServer_retryCount:
  "retryCount (toggleMockServer r b s) = 0 \<and>
   (isConnected (toggleMockServer r b s) \<longrightarrow> isConnected s)"
  by (simp add: toggleMockServer_def closeConnection_retryCount Let_def)

lemma ws_onopen_retryCount: "isConnected (ws_onopen s) \<and> retryCount (ws_onopen s) = 0"
  by (simp add: ws_onopen_def addMessage_def)

lemma ws_onclose_retryCount:
  "\<not> isConnected (ws_onclose r wasClean s) \<and>
   retryCount (ws_onclose r wasClean s) =
     (if \<not> wasClean \<and> r_retryCount r < maxRetries then r_retryCount r + 1 else retryCount s)"
  by (cases wasClean; cases "r_retryCount r < maxRetries")
     (simp_all add: ws_onclose_clean ws_onclose_retry ws_onclose_give_up)

lemma runTimer_retryCount:
  "retryCount (runTimer h a (clearTimeout t s)) \<le> retryCount s \<and>
   (isConnected (runTimer h a (clearTimeout t s)) \<longrightarrow>
      isConnected s \<or> retryCount (runTimer h a (clearTimeout t s)) = 0)"
proof (cases a)
  case (RetryConnect r)
  then show ?thesis
    using connectToServer_retryCount [of h r "clearTimeout t s"]
    by (simp add: runTimer_def clearTimeout_def)
next
  case (ConnectTimeout i)
  then show ?thesis
    by (simp add: runTimer_def connectTimeout_fields) (simp add: clearTimeout_def)
next
  case (MockReply m)
  then show ?thesis
    by (simp add: runTimer_def addMessage_def clearTimeout_def)
qed

text \<open>
  C7. Whatever the event, a step that takes the component from not connected to
  connected leaves the retry count at 0: the simulated connect and the open signal of a
  socket both set it to 0. A step that increases the retry count is the unclean close of
  a socket, taken while the retry count and the count held by the close handler are
  both strictly below \<open>maxRetries\<close>, and the new value is the handler's count plus one.
  No other event increases it.
\<close>

theorem retryCount_invariant:
  "(isConnected (step h e s) \<and> \<not> isConnected s \<longrightarrow> retryCount (step h e s) = 0) \<and>
   (\<not> r_isConnecting r \<and> r_useMockServer r \<longrightarrow>
      isConnected (connectToServer h r s) \<and> retryCount (connectToServer h r s) = 0) \<and>
   isConnected (ws_onopen s) \<and> retryCount (ws_onopen s) = 0 \<and>
   (retryCount s < retryCount (step h e s) \<longrightarrow>
      retryCount s < maxRetries \<and>
      (\<exists>i. e = SocketClose i False \<and> i < length (sockets s) \<and>
           r_retryCount (createdIn (sockets s ! i)) < maxRetries \<and>
           retryCount (step h e s) = r_retryCount (createdIn (sockets s ! i)) + 1))"
proof -
  have mock: "\<not> r_isConnecting r \<and> r_useMockServer r \<longrightarrow>
      isConnected (connectToServer h r s) \<and> retryCount (connectToServer h r s) = 0"
    by (simp add: connectToServer_def clearRetryTimeout_def clearTimeout_def wsClose_def
        addMessage_def Let_def split: option.splits)
  have steps: "(isConnected (step h e s) \<and> \<not> isConnected s \<longrightarrow> retryCount (step h e s) = 0) \<and>
     (retryCount s < retryCount (step h e s) \<longrightarrow>
        retryCount s < maxRetries \<and>
        (\<exists>i. e = SocketClose i False \<and> i < length (sockets s) \<and>
             r_retryCount (createdIn (sockets s ! i)) < maxRetries \<and>
             retryCount (step h e s) = r_retryCount (createdIn (sockets s ! i)) + 1))"
  proof (cases e)
    case (TypeMessage m)
    then show ?thesis by (simp add: step_def)
  next
    case (TypeServerUrl u)
    then show ?thesis by (simp add: step_def)
  next
    case ClickConnect
    then show ?thesis
      using connectToServer_retryCount [of h "render_of s" s] by (auto simp: step_def)
  next
    case ClickSend
    then show ?thesis by (simp add: step_def sendMessage_retryCount)
  next
    case ClickDisconnect
    then show ?thesis
      using closeConnection_retryCount [of "render_of s" s] by (auto simp: step_def)
  next
    case (ToggleMock b)
    then show ?thesis
      using toggleMockServer_retryCount [of "render_of s" b s] by (auto simp: step_def)
  next
    case ClickClear
    then show ?thesis by (simp add: step_def clearMessages_def)
  next
    case (SocketOpen i)
    then show ?thesis by (simp add: step_def ws_onopen_retryCount)
  next
    case (SocketMessage i d)
    then show ?thesis by (simp add: step_def ws_onmessage_def addMessage_def)
  next
    case (SocketError i)
    then show ?thesis by (simp add: step_def ws_onerror_fields)
  next
    case (SocketClose i wasClean)
    then show ?thesis
      by (auto simp: step_def ws_onclose_retryCount setReadyState_def split: if_splits)
  next
    case (TimerFires t)
    show ?thesis
    proof (cases "find (\<lambda>x. fst x = t) (timers s)")
      case None
      with TimerFires show ?thesis by (simp add: step_def)
    next
      case (Some x)
      with TimerFires show ?thesis
        using runTimer_retryCount [of h "snd (snd x)" t s] by (auto simp: step_def)
    qed
  qed
  from mock steps ws_onopen_retryCount [of s] show ?thesis by blast
qed

theorem retryCount_invariant_witness:
  "\<not> isConnected (run demoHost [ClickConnect, SocketClose 0 False, ToggleMock True, TimerFires 2,
       SocketClose 1 False] init) \<and>
   retryCount (run demoHost [ClickConnect, SocketClose 0 False, ToggleMock True, TimerFires 2,
       SocketClose 1 False] init) = 1 \<and>
   isConnected (run demoHost [ClickConnect, SocketClose 0 False, ToggleMock True, TimerFires 2,
       SocketClose 1 False, ClickConnect] init) \<and>
   retryCount (run demoHost [ClickConnect, SocketClose 0 False, ToggleMock True, TimerFires 2,
       SocketClose 1 False, ClickConnect] init) = 0 \<and>
   retryCount (run demoHost [ClickConnect] init) <
     retryCount (run demoHost [ClickConnect, SocketClose 0 False] init) \<and>
   retryCount (run demoHost [ClickConnect, SocketClose 0 False] init) = 1"
  using retryCount_invariant [where h = demoHost and e = ClickConnect
      and r = "render_of (run demoHost [ClickConnect, SocketClose 0 False, ToggleMock True,
        TimerFires 2, SocketClose 1 False] init)"
      and s = "run demoHost [ClickConnect, SocketClose 0 False, ToggleMock True, TimerFires 2,
        SocketClose 1 False] init"]
    retryCount_invariant [where h = demoHost and e = "SocketClose 0 False"
      and r = "render_of init" and s = "run demoHost [ClickConnect] init"]
  by (simp add: evals)

section \<open>Disconnecting and the timers\<close>

text \<open>
  C8. From every state \<open>closeConnection\<close> ends with the component not connected, the status
  "Disconnected" and the error cleared, and it cancels the retry timer held in
  \<open>retryTimeoutRef\<close> and no other timer. In live mode it also sets the retry count to 0 and
  lets go of the handle, which is left closing or closed; a handle that was connecting or
  open is closed with the code 1000. In simulated mode it leaves the retry count, the
  handle and every socket as they were.
\<close>

theorem closeConnection_effects:
  "\<not> isConnected (closeConnection r s) \<and>
   connectionStatus (closeConnection r s) = statusDisconnected \<and>
   error (closeConnection r s) = None \<and>
   retryTimeoutRef (closeConnection r s) = None \<and>
   timers (closeConnection r s) =
     (case retryTimeoutRef s of None \<Rightarrow> timers s
      | Some t \<Rightarrow> filter (\<lambda>x. fst x \<noteq> t) (timers s)) \<and>
   (\<not> r_useMockServer r \<longrightarrow>
      retryCount (closeConnection r s) = 0 \<and> wsRef (closeConnection r s) = None \<and>
      (\<forall>i. wsRef s = Some i \<and> i < length (sockets s) \<longrightarrow>
         readyState (sockets (closeConnection r s) ! i) \<noteq> CONNECTING \<and>
         readyState (sockets (closeConnection r s) ! i) \<noteq> OPEN \<and>
         (readyState (sockets s ! i) = CONNECTING \<or> readyState (sockets s ! i) = OPEN \<longrightarrow>
            closeCall (sockets (closeConnection r s) ! i) = WithCode 1000 userClosedText))) \<and>
   (r_useMockServer r \<longrightarrow>
      retryCount (closeConnection r s) = retryCount s \<and>
      wsRef (closeConnection r s) = wsRef s \<and>
      sockets (closeConnection r s) = sockets s)"
proof (cases "r_useMockServer r")
  case True
  then show ?thesis
    by (simp add: closeConnection_mock clearRetryTimeout_timers clearRetryTimeout_sockets)
next
  case False
  show ?thesis
  proof (cases "wsRef s")
    case None
    with False show ?thesis
      by (simp add: closeConnection_live clearRetryTimeout_timers clearRetryTimeout_sockets)
  next
    case (Some i)
    with False show ?thesis
      using wsClose_fields [of i "WithCode 1000 userClosedText" "clearRetryTimeout s"]
      by (simp add: closeConnection_live clearRetryTimeout_timers clearRetryTimeout_sockets)
  qed
qed

theorem closeConnection_effects_witness:
  "\<not> useMockServer (run demoHost [ClickConnect, SocketOpen 0] init) \<and>
   wsRef (run demoHost [ClickConnect, SocketOpen 0] init) = Some 0 \<and>
   readyState (sockets (run demoHost [ClickConnect, SocketOpen 0] init) ! 0) = OPEN \<and>
   closeCall (sockets (run demoHost [ClickConnect, SocketOpen 0, ClickDisconnect] init) ! 0) =
     WithCode 1000 userClosedText \<and>
   readyState (sockets (run demoHost [ClickConnect, SocketOpen 0, ClickDisconnect] init) ! 0) = CLOSING \<and>
   connectionStatus (run demoHost [ClickConnect, SocketOpen 0, ClickDisconnect] init) = statusDisconnected \<and>
   useMockServer (run demoHost [ToggleMock True, ClickConnect] init) \<and>
   \<not> isConnected (run demoHost [ToggleMock True, ClickConnect, ClickDisconnect] init)"
  using closeConnection_effects [of "render_of (run demoHost [ClickConnect, SocketOpen 0] init)"
      "run demoHost [ClickConnect, SocketOpen 0] init"]
    closeConnection_effects [of "render_of (run demoHost [ToggleMock True, ClickConnect] init)"
      "run demoHost [ToggleMock True, ClickConnect] init"]
  by (simp add: evals)

text \<open>
  Three states in which a disconnect does less than that. With the mock server
  switched on while a live socket was connecting, the socket opens and the component is
  connected; the disconnect leaves that socket open and held. With the mock server
  switched on after a failed live attempt, the retry of that attempt fails again and
  sets the retry count to 1; the disconnect leaves it at 1. When a second connect is made
  before the close signal of a timed-out socket has arrived, both sockets close uncleanly
  and two retry timers are pending; the disconnect cancels the one it holds, and the
  other fires later and starts a third connection attempt.
\<close>

theorem closeConnection_every_state_counterexample:
  "isConnected (run demoHost [ClickConnect, ToggleMock True, SocketOpen 0] init) \<and>
   wsRef (run demoHost [ClickConnect, ToggleMock True, SocketOpen 0, ClickDisconnect] init) = Some 0 \<and>
   readyState (sockets (run demoHost [ClickConnect, ToggleMock True, SocketOpen 0, ClickDisconnect] init) ! 0) = OPEN \<and>
   retryCount (run demoHost [ClickConnect, SocketClose 0 False, ToggleMock True, TimerFires 2,
       SocketClose 1 False, ClickDisconnect] init) = 1 \<and>
   timers (run demoHost [ClickConnect, TimerFires 1, ClickConnect, SocketClose 0 False,
       SocketClose 1 False, ClickDisconnect] init) =
     [(2, 5000, ConnectTimeout 1), (3, 2000, RetryConnect (render_of init))] \<and>
   isConnecting (run demoHost [ClickConnect, TimerFires 1, ClickConnect, SocketClose 0 False,
       SocketClose 1 False, ClickDisconnect, TimerFires 3] init) \<and>
   length (sockets (run demoHost [ClickConnect, TimerFires 1, ClickConnect, SocketClose 0 False,
       SocketClose 1 False, ClickDisconnect, TimerFires 3] init)) = 3"
  by (simp add: evals)

text \<open>
  C9. Every disconnect and every fresh connect (one made by a render that is not already
  connecting) cancels the retry timer held in \<open>retryTimeoutRef\<close> and empties the ref; no
  other pending timer is removed, and a fresh live connect adds its own connect timeout
  of 5000 ms. A connect timeout is never cancelled: when it fires and its own socket is
  no longer connecting it changes nothing. The socket held in \<open>wsRef\<close> is no longer
  connecting after a fresh connect and after a live-mode disconnect.
\<close>

theorem timer_cancellation:
  "retryTimeoutRef (closeConnection r s) = None \<and>
   timers (closeConnection r s) =
     (case retryTimeoutRef s of None \<Rightarrow> timers s
      | Some t \<Rightarrow> filter (\<lambda>x. fst x \<noteq> t) (timers s)) \<and>
   (\<not> r_isConnecting r \<longrightarrow>
      retryTimeoutRef (connectToServer h r s) = None \<and>
      timers (connectToServer h r s) =
        (case retryTimeoutRef s of None \<Rightarrow> timers s
         | Some t \<Rightarrow> filter (\<lambda>x. fst x \<noteq> t) (timers s)) @
        (if \<not> r_useMockServer r \<and> newWebSocketThrows h (r_serverUrl r) = None
         then [(timerSeq s, 5000, ConnectTimeout (length (sockets s)))] else [])) \<and>
   (\<not> (i < length (sockets s) \<and> readyState (sockets s ! i) = CONNECTING) \<longrightarrow>
      connectTimeout i s = s) \<and>
   (wsRef s = Some i \<and> i < length (sockets s) \<longrightarrow>
      (\<not> r_isConnecting r \<longrightarrow> readyState (sockets (connectToServer h r s) ! i) \<noteq> CONNECTING) \<and>
      (\<not> r_useMockServer r \<longrightarrow> readyState (sockets (closeConnection r s) ! i) \<noteq> CONNECTING))"
  by (simp add: closeConnection_timers closeConnection_closes_handle connectToServer_timers
      connectToServer_closes_handle connectTimeout_ignored)

theorem timer_cancellation_witness:
  "retryTimeoutRef (run demoHost [ClickConnect, SocketOpen 0, SocketClose 0 False] init) = Some 2 \<and>
   timers (run demoHost [ClickConnect, SocketOpen 0, SocketClose 0 False] init) =
     [(1, 5000, ConnectTimeout 0), (2, 2000, RetryConnect (render_of init))] \<and>
   timers (run demoHost [ClickConnect, SocketOpen 0, SocketClose 0 False, ClickDisconnect] init) =
     [(1, 5000, ConnectTimeout 0)] \<and>
   \<not> isConnecting (run demoHost [ClickConnect, SocketOpen 0, SocketClose 0 False] init) \<and>
   timers (run demoHost [ClickConnect, SocketOpen 0, SocketClose 0 False, ClickConnect] init) =
     [(1, 5000, ConnectTimeout 0), (3, 5000, ConnectTimeout 1)] \<and>
   readyState (sockets (run demoHost [ClickConnect, SocketOpen 0, SocketClose 0 False] init) ! 0) = CLOSED \<and>
   timers (run demoHost [ClickConnect, SocketOpen 0, SocketClose 0 False, TimerFires 1] init) =
     [(2, 2000, RetryConnect (render_of init))] \<and>
   error (run demoHost [ClickConnect, SocketOpen 0, SocketClose 0 False, TimerFires 1] init) =
     Some (retryingText 1) \<and>
   wsRef (run demoHost [ClickConnect] init) = Some 0 \<and>
   readyState (sockets (run demoHost [ClickConnect, ClickDisconnect] init) ! 0) = CLOSING"
  using timer_cancellation [where h = demoHost and i = 0
      and r = "render_of (run demoHost [ClickConnect, SocketOpen 0, SocketClose 0 False] init)"
      and s = "run demoHost [ClickConnect, SocketOpen 0, SocketClose 0 False] init"]
    timer_cancellation [where h = demoHost and i = 0
      and r = "render_of (run demoHost [ClickConnect] init)"
      and s = "run demoHost [ClickConnect] init"]
  by (simp add: evals)

text \<open>
  The connect timeout is not cancelled. After a connect, the open signal and a disconnect,
  the timeout of that connect is still pending; after a failed connect and a fresh one,
  the timeouts of both are pending. And a timeout can act on a state that a disconnect
  has left: when a second connect is made before the close signal of a timed-out socket
  has arrived, that signal empties \<open>wsRef\<close>, the disconnect that follows closes nothing,
  and the timeout of the second socket then sets the timeout error on the disconnected
  component.
\<close>

theorem connect_timeout_not_cancelled_counterexample:
  "timers (run demoHost [ClickConnect, SocketOpen 0, ClickDisconnect] init) =
     [(1, 5000, ConnectTimeout 0)] \<and>
   timers (run demoHost [ClickConnect, SocketError 0, ClickConnect] init) =
     [(1, 5000, ConnectTimeout 0), (2, 5000, ConnectTimeout 1)] \<and>
   error (run demoHost [ClickConnect, TimerFires 1, ClickConnect, SocketClose 0 False,
       ClickDisconnect] init) = None \<and>
   connectionStatus (run demoHost [ClickConnect, TimerFires 1, ClickConnect, SocketClose 0 False,
       ClickDisconnect] init) = statusDisconnected \<and>
   error (run demoHost [ClickConnect, TimerFires 1, ClickConnect, SocketClose 0 False,
       ClickDisconnect, TimerFires 2] init) = Some connectionTimeoutText"
  by (simp add: evals)

end
